theory Spec2Isabelle
  imports Main
begin

section \<open>JavaScript values and the built-ins the page relies on\<close>

text \<open>
  The page (\<^verbatim>\<open>src/app/page.tsx\<close>) handles replies of type \<^verbatim>\<open>any\<close>. A reply is
  modelled as a tree of JavaScript values. Numbers are the integral ones (the page only
  tests a number for truthiness and hands it to the built-in string conversion). An
  object is the association list of the properties a lookup finds on it or on its
  prototypes, \<^verbatim>\<open>Object.prototype\<close> excepted; properties are plain data
  properties. A function value is given by what a call without arguments does: the only
  call the page makes on a function found in a reply is \<^verbatim>\<open>response.toString()\<close>.
\<close>

datatype exn = SyntaxError string | TypeError string | Error string

datatype jsval =
    JUndefined
  | JNull
  | JBool bool
  | JNum int
  | JStr string
  | JArr "jsval list"
  | JObj "(string \<times> jsval) list"
  | JFun "exn + jsval"

text \<open>
  Exceptions are values: \<open>Inl e\<close> is a thrown \<open>e\<close>, \<open>Inr v\<close> a normal result. An
  exception carries its message; the message of the engine's own \<^verbatim>\<open>TypeError\<close> for a
  property read on \<^verbatim>\<open>undefined\<close> or \<^verbatim>\<open>null\<close> is abridged.
\<close>

definition cannot_read :: exn where
  "cannot_read = TypeError ''Cannot read properties of undefined or null''"

definition bind_exn :: "exn + 'a \<Rightarrow> ('a \<Rightarrow> exn + 'b) \<Rightarrow> exn + 'b" where
  "bind_exn m f = (case m of Inl e \<Rightarrow> Inl e | Inr v \<Rightarrow> f v)"

definition try_catch :: "exn + 'a \<Rightarrow> (exn \<Rightarrow> exn + 'a) \<Rightarrow> exn + 'a" where
  "try_catch body handler = (case body of Inl e \<Rightarrow> handler e | Inr v \<Rightarrow> Inr v)"

fun map_exn :: "('a \<Rightarrow> exn + 'b) \<Rightarrow> 'a list \<Rightarrow> exn + 'b list" where
  "map_exn f [] = Inr []"
| "map_exn f (x # xs) =
     bind_exn (f x) (\<lambda>y. bind_exn (map_exn f xs) (\<lambda>ys. Inr (y # ys)))"

text \<open>\<^verbatim>\<open>Boolean(v)\<close>, the test of \<^verbatim>\<open>if (v)\<close>, \<^verbatim>\<open>!v\<close> and \<^verbatim>\<open>.filter(Boolean)\<close>.\<close>

fun truthy :: "jsval \<Rightarrow> bool" where
  "truthy JUndefined = False"
| "truthy JNull = False"
| "truthy (JBool b) = b"
| "truthy (JNum n) = (n \<noteq> 0)"
| "truthy (JStr s) = (s \<noteq> [])"
| "truthy (JArr xs) = True"
| "truthy (JObj ps) = True"
| "truthy (JFun f) = True"

fun typeof :: "jsval \<Rightarrow> string" where
  "typeof JUndefined = ''undefined''"
| "typeof JNull = ''object''"
| "typeof (JBool b) = ''boolean''"
| "typeof (JNum n) = ''number''"
| "typeof (JStr s) = ''string''"
| "typeof (JArr xs) = ''object''"
| "typeof (JObj ps) = ''object''"
| "typeof (JFun f) = ''function''"

fun nullish :: "jsval \<Rightarrow> bool" where
  "nullish JUndefined = True"
| "nullish JNull = True"
| "nullish v = False"

text \<open>
  \<^verbatim>\<open>k in v\<close>. The page applies it only behind \<^verbatim>\<open>v && typeof v === "object"\<close>,
  that is to an object or an array, and only with the key \<^verbatim>\<open>"text"\<close>, which no
  array has of its own.
\<close>

fun has_property :: "string \<Rightarrow> jsval \<Rightarrow> bool" where
  "has_property k (JObj ps) = (k \<in> fst ` set ps)"
| "has_property k v = False"

text \<open>
  \<^verbatim>\<open>v.k\<close> for the keys the page reads (\<^verbatim>\<open>message\<close>, \<^verbatim>\<open>content\<close>,
  \<^verbatim>\<open>text\<close>): a \<^verbatim>\<open>TypeError\<close> on \<^verbatim>\<open>undefined\<close> and \<^verbatim>\<open>null\<close>,
  \<^verbatim>\<open>undefined\<close> where the property is missing.
\<close>

fun get_prop :: "jsval \<Rightarrow> string \<Rightarrow> exn + jsval" where
  "get_prop JUndefined k = Inl cannot_read"
| "get_prop JNull k = Inl cannot_read"
| "get_prop (JObj ps) k = (case map_of ps k of Some v \<Rightarrow> Inr v | None \<Rightarrow> Inr JUndefined)"
| "get_prop v k = Inr JUndefined"

text \<open>\<^verbatim>\<open>v.k1.k2...\<close> and \<^verbatim>\<open>v?.k1?.k2...\<close>.\<close>

fun get_path :: "jsval \<Rightarrow> string list \<Rightarrow> exn + jsval" where
  "get_path v [] = Inr v"
| "get_path v (k # ks) = bind_exn (get_prop v k) (\<lambda>w. get_path w ks)"

fun opt_chain :: "jsval \<Rightarrow> string list \<Rightarrow> exn + jsval" where
  "opt_chain v [] = Inr v"
| "opt_chain v (k # ks) =
     (if nullish v then Inr JUndefined else bind_exn (get_prop v k) (\<lambda>w. opt_chain w ks))"

text \<open>
  The built-ins of the JavaScript platform that the page calls are not code of the
  repository; they are parameters of the model. \<open>JSON_parse\<close> throws on text that is
  not JSON; \<open>JSON_stringify\<close> returns a string or \<^verbatim>\<open>undefined\<close>, or throws;
  \<open>ToString\<close> is the string conversion of a number, an array, an object or a function.
  \<open>String_toLowerCase\<close> is \<^verbatim>\<open>String.prototype.toLowerCase\<close>, with the case mapping
  of Unicode. For \<^verbatim>\<open>String.prototype.trim\<close> the platform says how much of a string is
  white space (Unicode's white space and line terminators): \<open>leading_white_space\<close> is
  the length of the white space a string starts with, \<open>trailing_white_space\<close> of the
  white space it ends with.
\<close>

record platform =
  JSON_parse :: "string \<Rightarrow> exn + jsval"
  JSON_stringify :: "jsval \<Rightarrow> exn + jsval"
  ToString :: "jsval \<Rightarrow> exn + string"
  String_toLowerCase :: "string \<Rightarrow> string"
  leading_white_space :: "string \<Rightarrow> nat"
  trailing_white_space :: "string \<Rightarrow> nat"

text \<open>
  \<^verbatim>\<open>s.trim()\<close>: the string without the white space at its two ends. Whatever the
  platform counts as white space, the result is a part of \<open>s\<close>.
\<close>

definition trim :: "platform \<Rightarrow> string \<Rightarrow> string" where
  "trim pf s =
     (let t = drop (leading_white_space pf s) s
      in take (length t - trailing_white_space pf t) t)"

fun to_string :: "platform \<Rightarrow> jsval \<Rightarrow> exn + string" where
  "to_string pf (JStr s) = Inr s"
| "to_string pf (JBool b) = Inr (if b then ''true'' else ''false'')"
| "to_string pf JUndefined = Inr ''undefined''"
| "to_string pf JNull = Inr ''null''"
| "to_string pf v = ToString pf v"

fun join_strings :: "string \<Rightarrow> string list \<Rightarrow> string" where
  "join_strings sep [] = []"
| "join_strings sep [s] = s"
| "join_strings sep (s # t # ts) = s @ sep @ join_strings sep (t # ts)"

text \<open>\<^verbatim>\<open>xs.join(sep)\<close>: \<^verbatim>\<open>undefined\<close> and \<^verbatim>\<open>null\<close> elements give the empty string.\<close>

definition array_join :: "platform \<Rightarrow> string \<Rightarrow> jsval list \<Rightarrow> exn + string" where
  "array_join pf sep xs =
     bind_exn (map_exn (\<lambda>x. if nullish x then Inr [] else to_string pf x) xs)
       (\<lambda>strs. Inr (join_strings sep strs))"

section \<open>The response normalizer: \<^verbatim>\<open>extractTextFromResponse\<close>\<close>

text \<open>
  The callback of \<^verbatim>\<open>.map\<close> that the page uses at three places:
  \<^verbatim>\<open>item && typeof item === "object" && "text" in item ? item.text : ""\<close>.
\<close>

definition item_text :: "jsval \<Rightarrow> exn + jsval" where
  "item_text item =
     (if truthy item \<and> typeof item = ''object'' \<and> has_property ''text'' item
      then get_prop item ''text''
      else Inr (JStr []))"

text \<open>\<^verbatim>\<open>items.map(...).filter(Boolean).join("\n")\<close>\<close>

definition text_items :: "platform \<Rightarrow> jsval list \<Rightarrow> exn + jsval" where
  "text_items pf items =
     bind_exn (map_exn item_text items) (\<lambda>texts.
     bind_exn (array_join pf ''\<newline>'' (filter truthy texts)) (\<lambda>s. Inr (JStr s)))"

text \<open>Lines 102 to 128: the reply is a string.\<close>

definition extract_from_string :: "platform \<Rightarrow> string \<Rightarrow> exn + jsval" where
  "extract_from_string pf response =
     try_catch
       (bind_exn (JSON_parse pf response) (\<lambda>parsed.
          case parsed of
            JArr items \<Rightarrow> text_items pf items
          | _ \<Rightarrow>
            if truthy parsed \<and> typeof parsed = ''object'' \<and> has_property ''text'' parsed
            then get_prop parsed ''text''
            else Inr (JStr response)))
       (\<lambda>e. Inr (JStr response))"

text \<open>
  Lines 184 to 189. \<open>custom_toString\<close> is \<open>None\<close> when \<^verbatim>\<open>response.toString\<close> is not
  a function or is \<^verbatim>\<open>Object.prototype.toString\<close>, and otherwise the outcome of the
  call \<^verbatim>\<open>response.toString()\<close>: of the object's own method, or of the built-in
  conversion of a boolean, a number or a function.
\<close>

fun custom_toString :: "platform \<Rightarrow> jsval \<Rightarrow> (exn + jsval) option" where
  "custom_toString pf (JObj ps) =
     (case map_of ps ''toString'' of Some (JFun outcome) \<Rightarrow> Some outcome | _ \<Rightarrow> None)"
| "custom_toString pf JUndefined = Some (Inl cannot_read)"
| "custom_toString pf JNull = Some (Inl cannot_read)"
| "custom_toString pf v = Some (bind_exn (to_string pf v) (\<lambda>s. Inr (JStr s)))"

definition stringify_last_resort :: "platform \<Rightarrow> jsval \<Rightarrow> exn + jsval" where
  "stringify_last_resort pf response =
     (case custom_toString pf response of
        Some outcome \<Rightarrow>
          bind_exn outcome (\<lambda>stringValue.
            if stringValue \<noteq> JStr ''[object Object]'' then Inr stringValue
            else JSON_stringify pf response)
      | None \<Rightarrow> JSON_stringify pf response)"

text \<open>Lines 162 to 181: \<^verbatim>\<open>response.message?.content\<close> is truthy.\<close>

definition from_message_content :: "platform \<Rightarrow> jsval \<Rightarrow> exn + jsval" where
  "from_message_content pf response =
     bind_exn (get_path response [''message'', ''content'']) (\<lambda>c.
       if typeof c = ''string'' then get_path response [''message'', ''content'']
       else case c of
              JArr items \<Rightarrow> text_items pf items
            | _ \<Rightarrow> JSON_stringify pf c)"

text \<open>Lines 158 to 160: \<^verbatim>\<open>response.content\<close> is truthy.\<close>

definition from_content :: "platform \<Rightarrow> jsval \<Rightarrow> exn + jsval" where
  "from_content pf response =
     bind_exn (get_prop response ''content'') (\<lambda>c.
       if typeof c = ''string'' then get_prop response ''content''
       else bind_exn (get_prop response ''content'') (JSON_stringify pf))"

text \<open>Lines 136 to 192: the body of the second \<^verbatim>\<open>try\<close>.\<close>

definition extract_from_object :: "platform \<Rightarrow> jsval \<Rightarrow> exn + jsval" where
  "extract_from_object pf response =
     (case response of
        JArr items \<Rightarrow> text_items pf items
      | _ \<Rightarrow>
        bind_exn (bind_exn (get_prop response ''message'')
                    (\<lambda>m. opt_chain m [''content'', ''text''])) (\<lambda>mct.
        if truthy mct then get_path response [''message'', ''content'', ''text'']
        else
        bind_exn (get_prop response ''text'') (\<lambda>t.
        if truthy t then get_prop response ''text''
        else
        bind_exn (get_prop response ''content'') (\<lambda>c.
        if truthy c then from_content pf response
        else
        bind_exn (bind_exn (get_prop response ''message'')
                    (\<lambda>m. opt_chain m [''content''])) (\<lambda>mc.
        if truthy mc then from_message_content pf response
        else stringify_last_resort pf response)))))"

text \<open>
  The whole function. Its result is what the JavaScript function returns, whatever its
  type: the annotation \<^verbatim>\<open>: string\<close> is not checked against values of type \<^verbatim>\<open>any\<close>.
  The console output of the debug mode is not modelled.
\<close>

definition extractTextFromResponse :: "platform \<Rightarrow> jsval \<Rightarrow> exn + jsval" where
  "extractTextFromResponse pf response =
     (case response of
        JStr s \<Rightarrow> extract_from_string pf s
      | _ \<Rightarrow>
        if \<not> truthy response then Inr (JStr ''No response received'')
        else try_catch (extract_from_object pf response)
               (\<lambda>error. Inr (JStr ''Error processing response'')))"

section \<open>The gateway client adapter: \<^verbatim>\<open>callPuterChat\<close>\<close>

text \<open>
  \<^verbatim>\<open>puterRef.current\<close> is \<^verbatim>\<open>null\<close> or the object \<^verbatim>\<open>window.puter\<close>. Of that
  object the page reads \<^verbatim>\<open>ai\<close> (missing, or an object) and \<^verbatim>\<open>ai.chat\<close> (not a
  function, or a function of the prompt and the options, which returns a reply or
  throws).
\<close>

type_synonym chat_fn = "string \<Rightarrow> jsval \<Rightarrow> exn + jsval"

datatype ai_cap = AiCap (chat: "chat_fn option")

datatype puter = Puter (ai: "ai_cap option")

definition ai_advisory :: string where
  "ai_advisory =
     ''Sorry, the AI service is not available. This might be due to Puter.js API changes.''"

definition chat_advisory :: string where
  "chat_advisory = ''Sorry, the chat method is not available in this version of Puter.js.''"

definition not_loaded :: exn where
  "not_loaded = Error ''Puter.js is not loaded''"

definition callPuterChat :: "platform \<Rightarrow> puter option \<Rightarrow> string \<Rightarrow> string \<Rightarrow> exn + jsval" where
  "callPuterChat pf puterRef promptText model =
     try_catch
       (case puterRef of
          None \<Rightarrow> Inl not_loaded
        | Some p \<Rightarrow>
          (case ai p of
             None \<Rightarrow> Inr (JStr ai_advisory)
           | Some a \<Rightarrow>
             (case chat a of
                None \<Rightarrow> Inr (JStr chat_advisory)
              | Some f \<Rightarrow>
                bind_exn (f promptText (JObj [(''model'', JStr model)]))
                  (\<lambda>response. extractTextFromResponse pf response))))
       (\<lambda>error. Inl error)"

section \<open>The mock responder: \<^verbatim>\<open>getMockResponse\<close>\<close>

text \<open>
  \<^verbatim>\<open>s.includes(sub)\<close>: \<open>sub\<close> occurs in \<open>s\<close>. Strings are byte strings (UTF-8), and
  the page searches for ASCII words only, which occur among the bytes exactly where they
  occur among the characters.
\<close>

fun str_includes :: "string \<Rightarrow> string \<Rightarrow> bool" where
  "str_includes [] sub = (sub = [])"
| "str_includes (c # cs) sub = (take (length sub) (c # cs) = sub \<or> str_includes cs sub)"

definition mock_greeting :: string where
  \<open>mock_greeting = ''Hello! I'' @ [CHR 0x27] @ ''m a mock AI assistant. Puter.js isn'' @ [CHR 0x27] @ ''t working correctly, but I can still chat with you in a limited way.''\<close>

definition mock_help :: string where
  \<open>mock_help = ''I'' @ [CHR 0x27] @ ''m currently running in mock mode because Puter.js isn'' @ [CHR 0x27] @ ''t working correctly. Try checking the console for more information about the error.''\<close>

definition mock_generic :: string where
  \<open>mock_generic = ''I'' @ [CHR 0x27] @ ''m a mock AI assistant. The Puter.js API seems to be unavailable or has changed. This is a fallback response.''\<close>

definition getMockResponse :: "platform \<Rightarrow> string \<Rightarrow> string" where
  "getMockResponse pf p =
     (if str_includes (String_toLowerCase pf p) ''hello'' \<or>
         str_includes (String_toLowerCase pf p) ''hi''
      then mock_greeting
      else if str_includes (String_toLowerCase pf p) ''help'' then mock_help
      else mock_generic)"

section \<open>The page state and the orchestrator: \<^verbatim>\<open>handleSubmit\<close>\<close>

datatype role = User | Assistant | System

record message =
  role :: role
  content :: jsval

datatype script_status = Loading | Loaded | Failed

text \<open>
  The state of the component \<^verbatim>\<open>Home\<close>: its \<^verbatim>\<open>useState\<close> cells and \<^verbatim>\<open>puterRef\<close>.
  Three more fields record effects outside React: whether the ten-second timer is still
  set, whether the script element has yet to fire \<^verbatim>\<open>load\<close> or \<^verbatim>\<open>error\<close>, and
  the calls of \<^verbatim>\<open>callPuterChat\<close> made so far (prompt and model). The status
  \<^verbatim>\<open>"error"\<close> is \<open>Failed\<close>. A message's content is typed \<^verbatim>\<open>string\<close> in the
  page but receives what \<^verbatim>\<open>callPuterChat\<close> returns.
\<close>

record page_state =
  selectedModel :: string
  prompt :: string
  messages :: "message list"
  isLoading :: bool
  scriptStatus :: script_status
  errorMessage :: "string option"
  puterRef :: "puter option"
  debugMode :: bool
  timeoutPending :: bool
  scriptPending :: bool
  adapterCalls :: "(string \<times> string) list"

definition AI_MODELS :: "(string \<times> string) list" where
  "AI_MODELS =
     [(''gpt-4o'', ''GPT-4o''),
      (''claude-3-7-sonnet'', ''Claude 3.7 Sonnet''),
      (''llama-3-70b'', ''Llama 3 70B''),
      (''mistral-large'', ''Mistral Large''),
      (''gemini-pro'', ''Gemini Pro'')]"

text \<open>The first render, with the effect of lines 39 to 88 run: timer set, script appended.\<close>

definition initial_state :: page_state where
  "initial_state =
     \<lparr>selectedModel = fst (hd AI_MODELS), prompt = [], messages = [], isLoading = False,
      scriptStatus = Loading, errorMessage = None, puterRef = None, debugMode = False,
      timeoutPending = True, scriptPending = True, adapterCalls = []\<rparr>"

text \<open>\<^verbatim>\<open>scriptStatus === "loaded" && puterRef.current?.ai\<close>\<close>

definition gateway_usable :: "page_state \<Rightarrow> bool" where
  "gateway_usable st =
     (scriptStatus st = Loaded \<and>
      (case puterRef st of None \<Rightarrow> False | Some p \<Rightarrow> ai p \<noteq> None))"

text \<open>
  Lines 264 to 278: the value of \<^verbatim>\<open>responseText\<close>, or what the block throws,
  together with the calls of \<^verbatim>\<open>callPuterChat\<close> it made.
\<close>

definition response_text ::
  "platform \<Rightarrow> page_state \<Rightarrow> string \<Rightarrow> (exn + jsval) \<times> (string \<times> string) list" where
  "response_text pf st currentPrompt =
     (if gateway_usable st
      then (try_catch (callPuterChat pf (puterRef st) currentPrompt (selectedModel st))
              (\<lambda>puterError. Inr (JStr (getMockResponse pf currentPrompt))),
            [(currentPrompt, selectedModel st)])
      else (Inr (JStr (getMockResponse pf currentPrompt)), []))"

definition error_text :: "exn \<Rightarrow> string" where
  "error_text e = (case e of SyntaxError m \<Rightarrow> m | TypeError m \<Rightarrow> m | Error m \<Rightarrow> m)"

definition apology_message :: message where
  "apology_message =
     \<lparr>role = Assistant,
      content = JStr ''Sorry, there was an error processing your request. Please try again.''\<rparr>"

text \<open>
  \<^verbatim>\<open>handleSubmit\<close>, from the call to the end of its \<^verbatim>\<open>finally\<close>. The updates of
  \<^verbatim>\<open>messages\<close> are functional (\<^verbatim>\<open>prev => [...prev, m]\<close>), so they append to the list
  as it is; the values of \<^verbatim>\<open>prompt\<close>, \<^verbatim>\<open>isLoading\<close>, \<^verbatim>\<open>scriptStatus\<close> and
  \<^verbatim>\<open>selectedModel\<close> are those of the state the handler was created in.
\<close>

definition handleSubmit :: "platform \<Rightarrow> page_state \<Rightarrow> page_state" where
  "handleSubmit pf st =
     (if trim pf (prompt st) = [] \<or> isLoading st then st
      else
        let userMessage = \<lparr>role = User, content = JStr (prompt st)\<rparr>;
            currentPrompt = prompt st;
            st1 = st\<lparr>isLoading := True, errorMessage := None,
                     messages := messages st @ [userMessage], prompt := []\<rparr>;
            outcome = response_text pf st currentPrompt;
            st2 = st1\<lparr>adapterCalls := adapterCalls st1 @ snd outcome\<rparr>;
            st3 = (case fst outcome of
                     Inr responseText \<Rightarrow>
                       st2\<lparr>messages :=
                             messages st2 @ [\<lparr>role = Assistant, content = responseText\<rparr>]\<rparr>
                   | Inl error \<Rightarrow>
                       st2\<lparr>errorMessage := Some (error_text error),
                           messages := messages st2 @ [apology_message]\<rparr>)
        in st3\<lparr>isLoading := False\<rparr>)"

section \<open>Loading the gateway script\<close>

definition welcome_message :: message where
  "welcome_message =
     \<lparr>role = System,
      content = JStr ''Welcome! Select an AI model and start chatting. The models are powered by Puter.js.''\<rparr>"

text \<open>\<^verbatim>\<open>script.onload\<close> (lines 52 to 72); the argument is \<^verbatim>\<open>window.puter\<close>.\<close>

definition onload :: "puter option \<Rightarrow> page_state \<Rightarrow> page_state" where
  "onload window_puter st =
     (let st1 = st\<lparr>timeoutPending := False, scriptStatus := Loaded\<rparr>
      in case window_puter of
           Some p \<Rightarrow> st1\<lparr>puterRef := Some p, messages := [welcome_message]\<rparr>
         | None \<Rightarrow>
           st1\<lparr>scriptStatus := Failed,
               errorMessage := Some ''Puter.js loaded but the puter object is not available.''\<rparr>)"

text \<open>\<^verbatim>\<open>script.onerror\<close> (lines 74 to 78).\<close>

definition onerror :: "page_state \<Rightarrow> page_state" where
  "onerror st =
     st\<lparr>timeoutPending := False, scriptStatus := Failed,
        errorMessage :=
          Some ''Failed to load Puter.js script. Please check your connection and try again.''\<rparr>"

text \<open>
  The callback of \<^verbatim>\<open>setTimeout\<close> (lines 45 to 50). Its \<^verbatim>\<open>scriptStatus\<close> is the
  value captured by the effect, which runs once, after the first render.
\<close>

definition on_timeout :: "script_status \<Rightarrow> page_state \<Rightarrow> page_state" where
  "on_timeout captured st =
     (if captured = Loading
      then st\<lparr>scriptStatus := Failed,
              errorMessage :=
                Some ''Puter.js script loading timed out. Please check your connection and try again.''\<rparr>
      else st)"

text \<open>
  What can happen to the page. The script element fires \<^verbatim>\<open>load\<close> or \<^verbatim>\<open>error\<close> at
  most once; the timer fires at most once, and not after \<^verbatim>\<open>clearTimeout\<close>. An event
  that cannot happen in a state leaves it as it is.
\<close>

datatype event =
    ScriptLoad "puter option"
  | ScriptError
  | TimerFires
  | SetPrompt string
  | SetSelectedModel string
  | ToggleDebug
  | Submit

fun fire :: "platform \<Rightarrow> page_state \<Rightarrow> event \<Rightarrow> page_state" where
  "fire pf st (ScriptLoad window_puter) =
     (if scriptPending st then onload window_puter (st\<lparr>scriptPending := False\<rparr>) else st)"
| "fire pf st ScriptError =
     (if scriptPending st then onerror (st\<lparr>scriptPending := False\<rparr>) else st)"
| "fire pf st TimerFires =
     (if timeoutPending st
      then on_timeout (scriptStatus initial_state) (st\<lparr>timeoutPending := False\<rparr>)
      else st)"
| "fire pf st (SetPrompt s) = st\<lparr>prompt := s\<rparr>"
| "fire pf st (SetSelectedModel m) = st\<lparr>selectedModel := m\<rparr>"
| "fire pf st ToggleDebug = st\<lparr>debugMode := \<not> debugMode st\<rparr>"
| "fire pf st Submit = handleSubmit pf st"

definition run :: "platform \<Rightarrow> event list \<Rightarrow> page_state" where
  "run pf evs = foldl (fire pf) initial_state evs"

section \<open>The specification's wording, for comparison with the code\<close>

text \<open>
  The field \<open>k\<close> of a value as the specification speaks of it: the value stored under
  \<open>k\<close> in an object, and \<^verbatim>\<open>undefined\<close> where there is no such field or the value is
  not an object.
\<close>

definition field_of :: "jsval \<Rightarrow> string \<Rightarrow> jsval" where
  "field_of v k =
     (case v of
        JObj ps \<Rightarrow> (case map_of ps k of Some x \<Rightarrow> x | None \<Rightarrow> JUndefined)
      | _ \<Rightarrow> JUndefined)"


text \<open>
  Section 4.1, step 3: the cascade as a list of shape recognizers, tried in order, the
  first match deciding. A recognizer gives \<open>None\<close> when it does not match, and otherwise
  what it returns or throws. A field matches when its value is truthy; the two text
  recognizers are for a string field, as the specification has it, so they match a
  non-empty string.
\<close>

type_synonym recognizer = "platform \<Rightarrow> jsval \<Rightarrow> (exn + jsval) option"

definition rec_nested_text :: recognizer where
  "rec_nested_text pf r =
     (let v = field_of (field_of (field_of r ''message'') ''content'') ''text''
      in if typeof v = ''string'' \<and> truthy v then Some (Inr v) else None)"

definition rec_text :: recognizer where
  "rec_text pf r =
     (let v = field_of r ''text''
      in if typeof v = ''string'' \<and> truthy v then Some (Inr v) else None)"

definition rec_content :: recognizer where
  "rec_content pf r =
     (let c = field_of r ''content''
      in if truthy c then Some (if typeof c = ''string'' then Inr c else JSON_stringify pf c)
         else None)"

definition rec_message_content :: recognizer where
  "rec_message_content pf r =
     (let c = field_of (field_of r ''message'') ''content''
      in if truthy c
         then Some (if typeof c = ''string'' then Inr c
                    else case c of JArr items \<Rightarrow> text_items pf items | _ \<Rightarrow> JSON_stringify pf c)
         else None)"

text \<open>
  ``A custom string-conversion that is not the generic default object-to-string
  representation'': an object converts by the function in its \<^verbatim>\<open>toString\<close> field, when
  it has one; a boolean, a number and a function convert by the platform's rule for them;
  nothing else has a conversion of its own. The recognizer matches when the conversion
  throws, or gives a string other than \<^verbatim>\<open>[object Object]\<close>.
\<close>

definition custom_conversion :: "platform \<Rightarrow> jsval \<Rightarrow> (exn + jsval) option" where
  "custom_conversion pf r =
     (case r of
        JObj ps \<Rightarrow> (case field_of r ''toString'' of JFun outcome \<Rightarrow> Some outcome | _ \<Rightarrow> None)
      | JBool b \<Rightarrow> Some (Inr (JStr (if b then ''true'' else ''false'')))
      | JNum n \<Rightarrow> Some (case ToString pf r of Inl e \<Rightarrow> Inl e | Inr s \<Rightarrow> Inr (JStr s))
      | JFun f \<Rightarrow> Some (case ToString pf r of Inl e \<Rightarrow> Inl e | Inr s \<Rightarrow> Inr (JStr s))
      | _ \<Rightarrow> None)"

definition rec_custom_string :: recognizer where
  "rec_custom_string pf r =
     (case custom_conversion pf r of
        Some (Inr v) \<Rightarrow>
          if typeof v = ''string'' \<and> v \<noteq> JStr ''[object Object]'' then Some (Inr v) else None
      | Some (Inl e) \<Rightarrow> Some (Inl e)
      | None \<Rightarrow> None)"

definition rec_serialize :: recognizer where
  "rec_serialize pf r = Some (JSON_stringify pf r)"

fun first_match :: "recognizer list \<Rightarrow> recognizer" where
  "first_match [] pf r = None"
| "first_match (g # gs) pf r =
     (case g pf r of Some outcome \<Rightarrow> Some outcome | None \<Rightarrow> first_match gs pf r)"

definition spec_cascade :: "platform \<Rightarrow> jsval \<Rightarrow> exn + jsval" where
  "spec_cascade pf r =
     (case first_match
             [rec_nested_text, rec_text, rec_content, rec_message_content,
              rec_custom_string, rec_serialize] pf r of
        Some (Inr v) \<Rightarrow> Inr v
      | _ \<Rightarrow> Inr (JStr ''Error processing response''))"

text \<open>
  The replies whose text fields are what the specification takes them to be: the fields
  \<^verbatim>\<open>message.content.text\<close> and \<^verbatim>\<open>text\<close> hold a string or a falsy value, and the
  custom conversion, where it returns, returns a string.
\<close>

definition string_or_falsy :: "jsval \<Rightarrow> bool" where
  "string_or_falsy v = (typeof v = ''string'' \<or> \<not> truthy v)"

definition conversion_gives_string :: "platform \<Rightarrow> jsval \<Rightarrow> bool" where
  "conversion_gives_string pf r =
     (case custom_conversion pf r of Some (Inr v) \<Rightarrow> typeof v = ''string'' | _ \<Rightarrow> True)"

definition texts_are_strings :: "platform \<Rightarrow> jsval \<Rightarrow> bool" where
  "texts_are_strings pf r =
     (string_or_falsy (field_of (field_of (field_of r ''message'') ''content'') ''text'') \<and>
      string_or_falsy (field_of r ''text'') \<and>
      conversion_gives_string pf r)"

text \<open>
  Section 3: a content that is a non-empty string, and the states all of whose user and
  system messages have one.
\<close>

definition nonempty_text :: "jsval \<Rightarrow> bool" where
  "nonempty_text v = (case v of JStr s \<Rightarrow> s \<noteq> [] | _ \<Rightarrow> False)"

definition user_texts_nonempty :: "page_state \<Rightarrow> bool" where
  "user_texts_nonempty st =
     (\<forall>m \<in> set (messages st). role m \<noteq> Assistant \<longrightarrow> nonempty_text (content m))"

section \<open>A platform and gateway handles for the examples\<close>

text \<open>
  The examples below run on a platform given by tables: \<open>sample_parse\<close> is
  \<^verbatim>\<open>JSON.parse\<close> at the texts listed and rejects every other text, so it is
  evaluated below only at the listed texts and at texts that are not JSON;
  \<open>sample_stringify\<close> is \<^verbatim>\<open>JSON.stringify\<close> at the values listed. Its string
  conversion is that of a plain object; no example converts a number, an array or a
  function. Its lower case and its white space are those of ASCII; the prompts of the
  examples are ASCII texts.
\<close>

definition lower_char :: "char \<Rightarrow> char" where
  "lower_char c =
     (case map_of (zip ''ABCDEFGHIJKLMNOPQRSTUVWXYZ'' ''abcdefghijklmnopqrstuvwxyz'') c of
        Some d \<Rightarrow> d
      | None \<Rightarrow> c)"

definition is_space :: "char \<Rightarrow> bool" where
  "is_space c = (c \<in> set [CHR '' '', CHR 0x09, CHR 0x0A, CHR 0x0B, CHR 0x0C, CHR 0x0D])"

definition sample_parse :: "string \<Rightarrow> exn + jsval" where
  \<open>sample_parse s =
     (if s = ''[{"text":"a"},{"text":"b"}]''
        then Inr (JArr [JObj [(''text'', JStr ''a'')], JObj [(''text'', JStr ''b'')]])
      else if s = ''[]'' then Inr (JArr [])
      else if s = ''[1,2]'' then Inr (JArr [JNum 1, JNum 2])
      else if s = ''{"text":"x"}'' then Inr (JObj [(''text'', JStr ''x'')])
      else if s = ''{"a":1}'' then Inr (JObj [(''a'', JNum 1)])
      else Inl (SyntaxError ''Unexpected token''))\<close>

definition sample_stringify :: "jsval \<Rightarrow> exn + jsval" where
  \<open>sample_stringify v =
     (if v = JObj [(''a'', JNum 1)] then Inr (JStr ''{"a":1}'')
      else if v = JObj [(''text'', JStr ''x'')] then Inr (JStr ''{"text":"x"}'')
      else Inr JUndefined)\<close>

definition sample_platform :: platform where
  "sample_platform =
     \<lparr>JSON_parse = sample_parse, JSON_stringify = sample_stringify,
      ToString = (\<lambda>v. Inr ''[object Object]''),
      String_toLowerCase = map lower_char,
      leading_white_space = (\<lambda>s. length (takeWhile is_space s)),
      trailing_white_space = (\<lambda>s. length (takeWhile is_space (rev s)))\<rparr>"

text \<open>A gateway whose chat operation answers every call with the same outcome.\<close>

definition sample_puter :: "exn + jsval \<Rightarrow> puter" where
  "sample_puter outcome = Puter (Some (AiCap (Some (\<lambda>promptText options. outcome))))"

text \<open>
  A gateway whose chat operation answers with the model it was given and the prompt, and
  throws when its options are not \<^verbatim>\<open>{model: ...}\<close>.
\<close>

definition echo_chat :: chat_fn where
  "echo_chat promptText options =
     (case options of
        JObj [(k, JStr model)] \<Rightarrow>
          if k = ''model'' then Inr (JStr (model @ '': '' @ promptText))
          else Inl (Error ''no model'')
      | _ \<Rightarrow> Inl (Error ''no model''))"

definition echo_puter :: puter where
  "echo_puter = Puter (Some (AiCap (Some echo_chat)))"

text \<open>
  Three states with the prompt \<^verbatim>\<open>test\<close> typed in: the script failed to load; it
  loaded a gateway whose chat operation throws; it loaded the echoing gateway.
\<close>

definition failed_state :: page_state where
  "failed_state = run sample_platform [ScriptError, SetPrompt ''test'']"

definition throwing_state :: page_state where
  "throwing_state =
     run sample_platform
       [ScriptLoad (Some (sample_puter (Inl (Error ''boom'')))), SetPrompt ''test'']"

definition echo_state :: page_state where
  "echo_state = run sample_platform [ScriptLoad (Some echo_puter), SetPrompt ''test'']"

section \<open>Facts about the built-in operations and the helpers\<close>

lemma bind_exn_Inr [simp]: "bind_exn (Inr v) f = f v"
  by (simp add: bind_exn_def)

lemma bind_exn_Inl [simp]: "bind_exn (Inl e) f = Inl e"
  by (simp add: bind_exn_def)

lemma try_catch_Inr [simp]: "try_catch (Inr v) h = Inr v"
  by (simp add: try_catch_def)

lemma try_catch_Inl [simp]: "try_catch (Inl e) h = h e"
  by (simp add: try_catch_def)

lemma get_prop_field_of: "\<not> nullish v \<Longrightarrow> get_prop v k = Inr (field_of v k)"
  by (cases v) (auto simp: field_of_def split: option.splits)

lemma opt_chain_field_of1: "opt_chain v [k] = Inr (field_of v k)"
  by (cases v) (auto simp: field_of_def split: option.splits)

lemma opt_chain_field_of2: "opt_chain v [k, l] = Inr (field_of (field_of v k) l)"
  by (cases v; cases "field_of v k") (auto simp: field_of_def split: option.splits)

lemma truthy_not_nullish: "truthy v \<Longrightarrow> \<not> nullish v"
  by (cases v) auto







lemma try_catch_total: "\<exists>v. try_catch m (\<lambda>e. Inr c) = Inr v"
  by (cases m) simp_all

lemma sample_parse_simp [simp]: "JSON_parse sample_platform = sample_parse"
  by (simp add: sample_platform_def)

lemma sample_stringify_simp [simp]: "JSON_stringify sample_platform = sample_stringify"
  by (simp add: sample_platform_def)

text \<open>
  The normalizer never throws: every path of the string branch ends in a \<^verbatim>\<open>return\<close>
  or in the handler of its \<^verbatim>\<open>try\<close>, and the object branch runs inside the second
  \<^verbatim>\<open>try\<close>.
\<close>

lemma extractTextFromResponse_total: "\<exists>v. extractTextFromResponse pf r = Inr v"
  by (simp add: extractTextFromResponse_def extract_from_string_def try_catch_total
      split: jsval.splits)

lemma field_of_undefined [simp]: "field_of JUndefined k = JUndefined"
  by (simp add: field_of_def)

lemma from_content_eq:
  "\<not> nullish r \<Longrightarrow>
   from_content pf r =
     (if typeof (field_of r ''content'') = ''string'' then Inr (field_of r ''content'')
      else JSON_stringify pf (field_of r ''content''))"
  by (simp add: from_content_def get_prop_field_of)

lemma from_message_content_eq:
  "\<not> nullish r \<Longrightarrow> truthy (field_of (field_of r ''message'') ''content'') \<Longrightarrow>
   from_message_content pf r =
     (let c = field_of (field_of r ''message'') ''content''
      in if typeof c = ''string'' then Inr c
         else case c of JArr items \<Rightarrow> text_items pf items | _ \<Rightarrow> JSON_stringify pf c)"
proof -
  assume a: "\<not> nullish r" and t: "truthy (field_of (field_of r ''message'') ''content'')"
  have m: "\<not> nullish (field_of r ''message'')"
    using t by (cases "field_of r ''message''") (auto simp: field_of_def)
  show ?thesis
    by (simp add: from_message_content_def get_prop_field_of a m Let_def)
qed

lemma custom_toString_conversion:
  assumes "truthy r" and "typeof r \<noteq> ''string''" and "\<forall>items. r \<noteq> JArr items"
  shows "custom_toString pf r = custom_conversion pf r"
  using assms
  by (cases r)
     (auto simp: custom_conversion_def field_of_def bind_exn_def
        split: option.splits jsval.splits sum.splits)

lemma stringify_last_resort_eq:
  assumes "truthy r" and "typeof r \<noteq> ''string''" and "\<forall>items. r \<noteq> JArr items"
    and "conversion_gives_string pf r"
  shows "stringify_last_resort pf r =
     (case rec_custom_string pf r of Some outcome \<Rightarrow> outcome | None \<Rightarrow> JSON_stringify pf r)"
  using assms(4)
  by (auto simp: stringify_last_resort_def rec_custom_string_def conversion_gives_string_def
      custom_toString_conversion[OF assms(1-3)] split: option.splits sum.splits)

lemma case_not_array:
  "\<forall>items. r \<noteq> JArr items \<Longrightarrow>
   (case r of JUndefined \<Rightarrow> d | JNull \<Rightarrow> d | JBool b \<Rightarrow> d | JNum n \<Rightarrow> d | JStr s \<Rightarrow> d
      | JArr items \<Rightarrow> f items | JObj ps \<Rightarrow> d | JFun g \<Rightarrow> d) = d"
  by (cases r) auto

lemma extract_from_object_eq:
  assumes "truthy r" and "typeof r \<noteq> ''string''" and "\<forall>items. r \<noteq> JArr items"
    and "texts_are_strings pf r"
  shows "extract_from_object pf r =
     (case first_match
             [rec_nested_text, rec_text, rec_content, rec_message_content,
              rec_custom_string, rec_serialize] pf r of
        Some outcome \<Rightarrow> outcome | None \<Rightarrow> Inl cannot_read)"
proof -
  have n: "\<not> nullish r" using assms(1) by (rule truthy_not_nullish)
  have nt: "truthy (field_of (field_of (field_of r ''message'') ''content'') ''text'') \<Longrightarrow>
       typeof (field_of (field_of (field_of r ''message'') ''content'') ''text'') = ''string''"
    and tt: "truthy (field_of r ''text'') \<Longrightarrow> typeof (field_of r ''text'') = ''string''"
    and cs: "conversion_gives_string pf r"
    using assms(4) by (auto simp: texts_are_strings_def string_or_falsy_def)
  have "extract_from_object pf r =
        (let mct = field_of (field_of (field_of r ''message'') ''content'') ''text'' in
         if truthy mct then get_path r [''message'', ''content'', ''text'']
         else if truthy (field_of r ''text'') then Inr (field_of r ''text'')
         else if truthy (field_of r ''content'') then from_content pf r
         else if truthy (field_of (field_of r ''message'') ''content'') then from_message_content pf r
         else stringify_last_resort pf r)"
    using n assms(3)
    by (simp add: extract_from_object_def case_not_array get_prop_field_of opt_chain_field_of1
        opt_chain_field_of2 Let_def del: opt_chain.simps get_path.simps)
  moreover have "truthy (field_of (field_of (field_of r ''message'') ''content'') ''text'') \<Longrightarrow>
     get_path r [''message'', ''content'', ''text'']
       = Inr (field_of (field_of (field_of r ''message'') ''content'') ''text'')"
  proof -
    assume t: "truthy (field_of (field_of (field_of r ''message'') ''content'') ''text'')"
    have c: "\<not> nullish (field_of (field_of r ''message'') ''content'')"
      using t by (cases "field_of (field_of r ''message'') ''content''") (auto simp: field_of_def)
    have m: "\<not> nullish (field_of r ''message'')"
      using c by (cases "field_of r ''message''") (auto simp: field_of_def)
    show ?thesis by (simp add: get_prop_field_of n m c)
  qed
  ultimately show ?thesis
    using n nt tt
    by (auto simp: Let_def rec_nested_text_def rec_text_def rec_content_def
        rec_message_content_def rec_serialize_def from_content_eq from_message_content_eq
        stringify_last_resort_eq[OF assms(1-3) cs] split: option.splits)
qed

lemma string_passes_through:
  assumes "(\<exists>e. JSON_parse pf s = Inl e) \<or>
           (\<exists>v. JSON_parse pf s = Inr v \<and> (\<forall>items. v \<noteq> JArr items) \<and>
                \<not> has_property ''text'' v)"
  shows "extractTextFromResponse pf (JStr s) = Inr (JStr s)"
  using assms
  by (auto simp: extractTextFromResponse_def extract_from_string_def split: jsval.splits)

lemma try_catch_rethrow: "try_catch m Inl = m"
  by (simp add: try_catch_def split: sum.splits)

lemma trim_nonempty: "trim pf p \<noteq> [] \<Longrightarrow> p \<noteq> []"
  by (auto simp: trim_def Let_def)

lemma mock_nonempty: "getMockResponse pf p \<noteq> []"
  by (simp add: getMockResponse_def mock_greeting_def mock_help_def mock_generic_def)

lemma handleSubmit_fallback:
  assumes "trim pf (prompt st) \<noteq> []" and "\<not> isLoading st"
    and "fst (response_text pf st (prompt st)) = Inr (JStr (getMockResponse pf (prompt st)))"
  shows "messages (handleSubmit pf st) =
           messages st @ [\<lparr>role = User, content = JStr (prompt st)\<rparr>,
                          \<lparr>role = Assistant, content = JStr (getMockResponse pf (prompt st))\<rparr>]"
  using assms by (simp add: handleSubmit_def Let_def)

lemma response_text_fallback:
  assumes "\<not> gateway_usable st \<or>
           (\<exists>e. callPuterChat pf (puterRef st) p (selectedModel st) = Inl e)"
  shows "fst (response_text pf st p) = Inr (JStr (getMockResponse pf p))"
  using assms by (auto simp: response_text_def)

lemma failed_state_simps:
  "prompt failed_state = ''test''" "isLoading failed_state = False"
  "scriptStatus failed_state = Failed" "messages failed_state = []" "adapterCalls failed_state = []"
  by (simp_all add: failed_state_def run_def onerror_def initial_state_def)

lemma throwing_state_simps:
  "prompt throwing_state = ''test''" "isLoading throwing_state = False"
  "scriptStatus throwing_state = Loaded" "messages throwing_state = [welcome_message]"
  "puterRef throwing_state = Some (sample_puter (Inl (Error ''boom'')))"
  by (simp_all add: throwing_state_def run_def onload_def initial_state_def)

lemma trim_test: "trim sample_platform ''test'' = ''test''"
  by (simp add: trim_def sample_platform_def is_space_def)

lemma trim_hi: "trim sample_platform ''hi'' = ''hi''"
  by (simp add: trim_def sample_platform_def is_space_def)

lemma mock_test: "getMockResponse sample_platform ''test'' = mock_generic"
  by (simp add: getMockResponse_def sample_platform_def lower_char_def)

lemma echo_state_simps:
  "prompt echo_state = ''test''" "isLoading echo_state = False"
  "scriptStatus echo_state = Loaded" "messages echo_state = [welcome_message]"
  "puterRef echo_state = Some echo_puter" "selectedModel echo_state = ''gpt-4o''"
  "adapterCalls echo_state = []"
  by (simp_all add: echo_state_def run_def onload_def initial_state_def AI_MODELS_def)

lemma handleSubmit_messages:
  "\<exists>ms. messages (handleSubmit pf st) = messages st @ ms \<and>
        (\<forall>m \<in> set ms. role m \<noteq> Assistant \<longrightarrow> nonempty_text (content m))"
proof (cases "trim pf (prompt st) = [] \<or> isLoading st")
  case True
  then show ?thesis by (simp add: handleSubmit_def)
next
  case False
  then have p: "prompt st \<noteq> []" using trim_nonempty by blast
  show ?thesis
    using False p
    by (cases "fst (response_text pf st (prompt st))")
       (simp_all add: handleSubmit_def Let_def nonempty_text_def apology_message_def)
qed

lemma fire_keeps_user_texts:
  "user_texts_nonempty st \<Longrightarrow> user_texts_nonempty (fire pf st ev)"
proof (cases ev)
  case (ScriptLoad wp)
  assume "user_texts_nonempty st"
  then show ?thesis
    using ScriptLoad
    by (cases wp)
       (auto simp: user_texts_nonempty_def onload_def Let_def welcome_message_def nonempty_text_def)
next
  case Submit
  assume a: "user_texts_nonempty st"
  obtain ms where "messages (handleSubmit pf st) = messages st @ ms"
    "\<forall>m \<in> set ms. role m \<noteq> Assistant \<longrightarrow> nonempty_text (content m)"
    using handleSubmit_messages by blast
  then show ?thesis using a Submit by (auto simp: user_texts_nonempty_def)
qed (auto simp: user_texts_nonempty_def onerror_def on_timeout_def)

lemma run_keeps_user_texts: "user_texts_nonempty (run pf evs)"
proof (induction evs rule: rev_induct)
  case Nil
  then show ?case by (simp add: run_def user_texts_nonempty_def initial_state_def)
next
  case (snoc ev evs)
  then show ?case using fire_keeps_user_texts[of "run pf evs" pf ev] by (simp add: run_def)
qed

section \<open>The response normalizer\<close>

text \<open>
  Claim C1 says that the normalizer returns a string for every reply and never lets an
  exception reach its caller. The second half holds (\<open>extractTextFromResponse_total\<close>).
  The first fails where a \<^verbatim>\<open>text\<close> field holds a value that is not a string: for the
  reply \<^verbatim>\<open>{text: 5}\<close> line 155 returns the number 5, although the function is
  declared to return \<^verbatim>\<open>string\<close> and the neighbouring \<^verbatim>\<open>content\<close> branch
  (line 159) serializes what is not a string.
\<close>

theorem C1_text_field_returned_as_it_is:
  "extractTextFromResponse sample_platform (JObj [(''text'', JNum 5)]) = Inr (JNum 5)"
  by (simp add: extractTextFromResponse_def extract_from_object_def)



text \<open>
  Claim C6 says that for a reply that is an object the normalizer returns the first match
  of: the nested field \<^verbatim>\<open>message.content.text\<close>, the field \<^verbatim>\<open>text\<close>, the field
  \<^verbatim>\<open>content\<close>, the field \<^verbatim>\<open>message.content\<close>, a custom string conversion, the
  JSON serialization. As stated it fails: a field that is there but holds a falsy value
  (the empty string, 0, \<^verbatim>\<open>null\<close>, \<^verbatim>\<open>false\<close>) is passed over by the tests
  \<^verbatim>\<open>if (response.text)\<close> and the like. The reply \<^verbatim>\<open>{text: "", content: "x"}\<close>
  has a \<^verbatim>\<open>text\<close> field, and the normalizer returns its \<^verbatim>\<open>content\<close>.
\<close>

theorem C6_empty_text_field_is_passed_over:
  "has_property ''text'' (JObj [(''text'', JStr []), (''content'', JStr ''x'')])
   \<and> field_of (JObj [(''text'', JStr []), (''content'', JStr ''x'')]) ''text'' = JStr []
   \<and> extractTextFromResponse sample_platform (JObj [(''text'', JStr []), (''content'', JStr ''x'')])
       = Inr (JStr ''x'')"
  by (simp add: extractTextFromResponse_def extract_from_object_def from_content_def field_of_def)


text \<open>
  Claim C6 as amended: for every reply that is truthy, not a string and not an array, and
  whose fields \<^verbatim>\<open>message.content.text\<close> and \<^verbatim>\<open>text\<close> hold a string or a falsy
  value and whose custom string conversion, where it returns, returns a string, the
  normalizer returns what the first matching recognizer of \<open>spec_cascade\<close> returns, in
  the order of the claim, where a field matches when its value is truthy; when that
  recognizer throws, the result is the text \<^verbatim>\<open>Error processing response\<close>. Nothing is
  said of a reply whose text field holds a truthy value that is not a string. The two
  examples of the claim, and a reply with a conversion of its own, are the witness.
\<close>

theorem C6_cascade_first_truthy_match:
  assumes "truthy r" and "typeof r \<noteq> ''string''" and "\<forall>items. r \<noteq> JArr items"
    and "texts_are_strings pf r"
  shows "extractTextFromResponse pf r = spec_cascade pf r"
proof -
  have s: "\<forall>s. r \<noteq> JStr s" using assms(2) by auto
  have "extractTextFromResponse pf r =
        try_catch (extract_from_object pf r) (\<lambda>error. Inr (JStr ''Error processing response''))"
    using assms(1) s by (cases r) (simp_all add: extractTextFromResponse_def)
  then show ?thesis
    unfolding spec_cascade_def extract_from_object_eq[OF assms]
    by (auto simp: rec_serialize_def split: option.splits sum.splits)
qed

theorem C6_cascade_first_truthy_match_witness:
  \<open>extractTextFromResponse sample_platform
      (JObj [(''message'', JObj [(''content'', JObj [(''text'', JStr ''hi'')])])]) = Inr (JStr ''hi'')
   \<and> extractTextFromResponse sample_platform (JObj [(''content'', JObj [(''a'', JNum 1)])])
       = JSON_stringify sample_platform (JObj [(''a'', JNum 1)])
   \<and> extractTextFromResponse sample_platform (JObj [(''toString'', JFun (Inr (JStr ''custom'')))])
       = Inr (JStr ''custom'')\<close>
proof -
  have a: \<open>extractTextFromResponse sample_platform
      (JObj [(''message'', JObj [(''content'', JObj [(''text'', JStr ''hi'')])])]) = Inr (JStr ''hi'')\<close>
    using C6_cascade_first_truthy_match[where pf = sample_platform
        and r = "JObj [(''message'', JObj [(''content'', JObj [(''text'', JStr ''hi'')])])]"]
    by (simp add: spec_cascade_def rec_nested_text_def field_of_def texts_are_strings_def
        string_or_falsy_def conversion_gives_string_def custom_conversion_def)
  have b: \<open>extractTextFromResponse sample_platform (JObj [(''content'', JObj [(''a'', JNum 1)])])
       = JSON_stringify sample_platform (JObj [(''a'', JNum 1)])\<close>
    using C6_cascade_first_truthy_match[where pf = sample_platform
        and r = "JObj [(''content'', JObj [(''a'', JNum 1)])]"]
    by (simp add: spec_cascade_def rec_nested_text_def rec_text_def rec_content_def field_of_def
        sample_stringify_def texts_are_strings_def string_or_falsy_def
        conversion_gives_string_def custom_conversion_def)
  have c: \<open>extractTextFromResponse sample_platform
        (JObj [(''toString'', JFun (Inr (JStr ''custom'')))]) = Inr (JStr ''custom'')\<close>
    using C6_cascade_first_truthy_match[where pf = sample_platform
        and r = "JObj [(''toString'', JFun (Inr (JStr ''custom'')))]"]
    by (simp add: spec_cascade_def rec_nested_text_def rec_text_def rec_content_def
        rec_message_content_def rec_custom_string_def field_of_def texts_are_strings_def
        string_or_falsy_def conversion_gives_string_def custom_conversion_def)
  show ?thesis using a b c by simp
qed

text \<open>
  Claim C7 says that a string reply that is not JSON, or that parses to something that is
  neither an array of objects nor an object with a \<^verbatim>\<open>text\<close> field, is returned
  unchanged. As stated it fails: line 106 tests \<^verbatim>\<open>Array.isArray(parsed)\<close> only, so
  every array takes the per-item path, and an array of numbers such as \<^verbatim>\<open>[1,2]\<close>
  gives the empty string.
\<close>

theorem C7_array_of_numbers_gives_empty_string:
  "JSON_parse sample_platform ''[1,2]'' = Inr (JArr [JNum 1, JNum 2])
   \<and> extractTextFromResponse sample_platform (JStr ''[1,2]'') = Inr (JStr [])
   \<and> extractTextFromResponse sample_platform (JStr ''[1,2]'') \<noteq> Inr (JStr ''[1,2]'')"
  by (simp add: extractTextFromResponse_def extract_from_string_def sample_parse_def
      text_items_def item_text_def array_join_def)

text \<open>
  Claim C7 as amended: a string reply that is not JSON, or that parses to a value that is
  not an array (of whatever items) and not an object with a \<^verbatim>\<open>text\<close> field, is
  returned unchanged.
\<close>

theorem C7_string_returned_unchanged:
  assumes "JSON_parse pf s = Inl e \<or>
           (JSON_parse pf s = Inr v \<and> (\<forall>items. v \<noteq> JArr items) \<and> \<not> has_property ''text'' v)"
  shows "extractTextFromResponse pf (JStr s) = Inr (JStr s)"
  using assms string_passes_through[of pf s] by blast

theorem C7_string_returned_unchanged_witness:
  \<open>extractTextFromResponse sample_platform (JStr ''hello'') = Inr (JStr ''hello'')
   \<and> extractTextFromResponse sample_platform (JStr ''{"a":1}'') = Inr (JStr ''{"a":1}'')\<close>
proof
  show "extractTextFromResponse sample_platform (JStr ''hello'') = Inr (JStr ''hello'')"
    using C7_string_returned_unchanged[of sample_platform "''hello''"
        "SyntaxError ''Unexpected token''" JNull]
    by (simp add: sample_parse_def)
  show \<open>extractTextFromResponse sample_platform (JStr ''{"a":1}'') = Inr (JStr ''{"a":1}'')\<close>
    using C7_string_returned_unchanged[of sample_platform \<open>''{"a":1}''\<close>
        "SyntaxError ''Unexpected token''" "JObj [(''a'', JNum 1)]"]
    by (simp add: sample_parse_def)
qed

text \<open>
  Claim C8 says that normalizing an output of the normalizer again returns it unchanged.
  As stated it fails, because the string branch parses JSON text: the reply
  \<^verbatim>\<open>{content: {text: "x"}}\<close> is normalized to the serialization of its content, the
  text \<^verbatim>\<open>{"text":"x"}\<close>, and that text is normalized to \<^verbatim>\<open>x\<close>.
\<close>

theorem C8_output_that_is_json_changes:
  \<open>extractTextFromResponse sample_platform (JObj [(''content'', JObj [(''text'', JStr ''x'')])])
     = Inr (JStr ''{"text":"x"}'')
   \<and> extractTextFromResponse sample_platform (JStr ''{"text":"x"}'') = Inr (JStr ''x'')\<close>
  by (simp add: extractTextFromResponse_def extract_from_object_def from_content_def
      extract_from_string_def sample_parse_def sample_stringify_def)

text \<open>
  Claim C8 as amended: when the output of the normalizer is a string that is not JSON, or
  that parses to a value that is neither an array nor an object with a \<^verbatim>\<open>text\<close>
  field, normalizing that string again returns the same output.
\<close>

theorem C8_renormalizing_plain_output:
  assumes "extractTextFromResponse pf r = Inr (JStr s)"
    and "JSON_parse pf s = Inl e \<or>
         (JSON_parse pf s = Inr v \<and> (\<forall>items. v \<noteq> JArr items) \<and> \<not> has_property ''text'' v)"
  shows "extractTextFromResponse pf (JStr s) = extractTextFromResponse pf r"
  using assms string_passes_through[of pf s] by auto

theorem C8_renormalizing_plain_output_witness:
  "extractTextFromResponse sample_platform JNull = Inr (JStr ''No response received'')
   \<and> extractTextFromResponse sample_platform (JStr ''No response received'')
       = extractTextFromResponse sample_platform JNull"
proof -
  have o: "extractTextFromResponse sample_platform JNull = Inr (JStr ''No response received'')"
    by (simp add: extractTextFromResponse_def)
  have "extractTextFromResponse sample_platform (JStr ''No response received'')
       = extractTextFromResponse sample_platform JNull"
    using C8_renormalizing_plain_output[of sample_platform JNull "''No response received''"
        "SyntaxError ''Unexpected token''" JNull, OF o]
    by (simp add: sample_parse_def)
  then show ?thesis using o by simp
qed

section \<open>The gateway client adapter\<close>

text \<open>
  Claim C9: \<^verbatim>\<open>callPuterChat\<close> checks in order. Without a handle it throws the error
  \<^verbatim>\<open>Puter.js is not loaded\<close>, which its own handler throws again; with a handle that
  has no \<^verbatim>\<open>ai\<close>, and with an \<^verbatim>\<open>ai\<close> whose \<^verbatim>\<open>chat\<close> is not a function, it
  returns one of two different advisory texts and throws nothing; otherwise it calls
  \<^verbatim>\<open>chat\<close> with the prompt and \<^verbatim>\<open>{model}\<close>, returns the normalizer's result on the
  reply, and throws again whatever the call throws.
\<close>

theorem C9_adapter_outcomes:
  "callPuterChat pf None p m = Inl not_loaded
   \<and> callPuterChat pf (Some (Puter None)) p m = Inr (JStr ai_advisory)
   \<and> callPuterChat pf (Some (Puter (Some (AiCap None)))) p m = Inr (JStr chat_advisory)
   \<and> ai_advisory \<noteq> chat_advisory
   \<and> (\<forall>raw. f p (JObj [(''model'', JStr m)]) = Inr raw \<longrightarrow>
        callPuterChat pf (Some (Puter (Some (AiCap (Some f))))) p m
          = extractTextFromResponse pf raw)
   \<and> (\<forall>e. f p (JObj [(''model'', JStr m)]) = Inl e \<longrightarrow>
        callPuterChat pf (Some (Puter (Some (AiCap (Some f))))) p m = Inl e)"
  by (auto simp: callPuterChat_def ai_advisory_def chat_advisory_def try_catch_rethrow)

theorem C9_adapter_outcomes_witness:
  "callPuterChat sample_platform (Some echo_puter) ''hello'' ''gpt-4o''
     = Inr (JStr ''gpt-4o: hello'')
   \<and> callPuterChat sample_platform (Some (sample_puter (Inl (Error ''boom'')))) ''hello'' ''gpt-4o''
     = Inl (Error ''boom'')"
proof
  have n: "extractTextFromResponse sample_platform (JStr ''gpt-4o: hello'')
           = Inr (JStr ''gpt-4o: hello'')"
    by (simp add: extractTextFromResponse_def extract_from_string_def sample_parse_def)
  show "callPuterChat sample_platform (Some echo_puter) ''hello'' ''gpt-4o''
     = Inr (JStr ''gpt-4o: hello'')"
    using C9_adapter_outcomes[of sample_platform "''hello''" "''gpt-4o''" echo_chat] n
    by (simp add: echo_puter_def echo_chat_def)
  show "callPuterChat sample_platform (Some (sample_puter (Inl (Error ''boom'')))) ''hello'' ''gpt-4o''
     = Inl (Error ''boom'')"
    using C9_adapter_outcomes[of sample_platform "''hello''" "''gpt-4o''"
        "\<lambda>promptText options. Inl (Error ''boom'')"]
    by (simp add: sample_puter_def)
qed

section \<open>The orchestrator\<close>

text \<open>
  Claim C2: when a prompt that is not blank is submitted while no submission is in flight,
  and the script status is not \<^verbatim>\<open>loaded\<close> or \<^verbatim>\<open>callPuterChat\<close> throws, then
  \<^verbatim>\<open>handleSubmit\<close> appends exactly two messages, the user's prompt and then an assistant
  message holding the mock response to that prompt; and when the status is not
  \<^verbatim>\<open>loaded\<close> it does not call \<^verbatim>\<open>callPuterChat\<close> at all.
\<close>

theorem C2_fallback_appends_prompt_and_mock:
  assumes "trim pf (prompt st) \<noteq> []" and "\<not> isLoading st"
    and "scriptStatus st \<noteq> Loaded \<or>
         (\<exists>e. callPuterChat pf (puterRef st) (prompt st) (selectedModel st) = Inl e)"
  shows "messages (handleSubmit pf st) =
           messages st @ [\<lparr>role = User, content = JStr (prompt st)\<rparr>,
                          \<lparr>role = Assistant, content = JStr (getMockResponse pf (prompt st))\<rparr>]
         \<and> length (messages (handleSubmit pf st)) = length (messages st) + 2
         \<and> (scriptStatus st \<noteq> Loaded \<longrightarrow> adapterCalls (handleSubmit pf st) = adapterCalls st)"
proof -
  have fb: "\<not> gateway_usable st \<or>
           (\<exists>e. callPuterChat pf (puterRef st) (prompt st) (selectedModel st) = Inl e)"
    using assms(3) by (auto simp: gateway_usable_def)
  have m: "messages (handleSubmit pf st) =
           messages st @ [\<lparr>role = User, content = JStr (prompt st)\<rparr>,
                          \<lparr>role = Assistant, content = JStr (getMockResponse pf (prompt st))\<rparr>]"
    by (rule handleSubmit_fallback[OF assms(1,2) response_text_fallback[OF fb]])
  have c: "scriptStatus st \<noteq> Loaded \<longrightarrow> adapterCalls (handleSubmit pf st) = adapterCalls st"
    using assms(1,2)
    by (simp add: handleSubmit_def Let_def response_text_def gateway_usable_def)
  show ?thesis using m c by simp
qed

theorem C2_fallback_appends_prompt_and_mock_witness:
  "messages (handleSubmit sample_platform failed_state) =
     [\<lparr>role = User, content = JStr ''test''\<rparr>, \<lparr>role = Assistant, content = JStr mock_generic\<rparr>]
   \<and> adapterCalls (handleSubmit sample_platform failed_state) = []
   \<and> messages (handleSubmit sample_platform throwing_state) =
     [welcome_message, \<lparr>role = User, content = JStr ''test''\<rparr>,
      \<lparr>role = Assistant, content = JStr mock_generic\<rparr>]"
proof -
  have a: "messages (handleSubmit sample_platform failed_state) =
     [\<lparr>role = User, content = JStr ''test''\<rparr>, \<lparr>role = Assistant, content = JStr mock_generic\<rparr>]
   \<and> adapterCalls (handleSubmit sample_platform failed_state) = []"
    using C2_fallback_appends_prompt_and_mock[where st = failed_state and pf = sample_platform]
    by (simp add: failed_state_simps trim_test mock_test)
  have t: "\<exists>e. callPuterChat sample_platform (puterRef throwing_state) (prompt throwing_state)
             (selectedModel throwing_state) = Inl e"
    by (simp add: throwing_state_simps callPuterChat_def sample_puter_def)
  have b: "messages (handleSubmit sample_platform throwing_state) =
     [welcome_message, \<lparr>role = User, content = JStr ''test''\<rparr>,
      \<lparr>role = Assistant, content = JStr mock_generic\<rparr>]"
    using C2_fallback_appends_prompt_and_mock[where st = throwing_state and pf = sample_platform] t
    by (simp add: throwing_state_simps trim_test mock_test)
  show ?thesis using a b by simp
qed

text \<open>
  Claim C10: whenever \<^verbatim>\<open>handleSubmit\<close> calls \<^verbatim>\<open>callPuterChat\<close>, the handle and its
  \<^verbatim>\<open>ai\<close> are there, so the call does not take the branch that throws
  \<^verbatim>\<open>Puter.js is not loaded\<close> nor the one that returns the advisory for a missing
  \<^verbatim>\<open>ai\<close>: its result is the advisory for a \<^verbatim>\<open>chat\<close> that is not a function, or
  the outcome of the chat call.
\<close>

theorem C10_adapter_called_with_ai_present:
  assumes "adapterCalls (handleSubmit pf st) \<noteq> adapterCalls st"
  shows "\<exists>a. puterRef st = Some (Puter (Some a))
           \<and> adapterCalls (handleSubmit pf st) = adapterCalls st @ [(prompt st, selectedModel st)]
           \<and> callPuterChat pf (puterRef st) (prompt st) (selectedModel st) =
               (case chat a of
                  None \<Rightarrow> Inr (JStr chat_advisory)
                | Some f \<Rightarrow>
                    bind_exn (f (prompt st) (JObj [(''model'', JStr (selectedModel st))]))
                      (extractTextFromResponse pf))"
proof -
  have g: "gateway_usable st" and ok: "\<not> (trim pf (prompt st) = [] \<or> isLoading st)"
    using assms
    by (auto simp: handleSubmit_def Let_def response_text_def split: if_splits sum.splits)
  from g obtain p a where p: "puterRef st = Some p" "ai p = Some a"
    by (auto simp: gateway_usable_def split: option.splits)
  then have pa: "puterRef st = Some (Puter (Some a))" by (cases p) simp
  have calls: "adapterCalls (handleSubmit pf st) = adapterCalls st @ [(prompt st, selectedModel st)]"
    using g ok by (simp add: handleSubmit_def Let_def response_text_def split: sum.splits)
  have "callPuterChat pf (puterRef st) (prompt st) (selectedModel st) =
               (case chat a of
                  None \<Rightarrow> Inr (JStr chat_advisory)
                | Some f \<Rightarrow>
                    bind_exn (f (prompt st) (JObj [(''model'', JStr (selectedModel st))]))
                      (extractTextFromResponse pf))"
    by (simp add: callPuterChat_def pa try_catch_rethrow split: option.splits)
  then show ?thesis using pa calls by blast
qed

theorem C10_adapter_called_with_ai_present_witness:
  "adapterCalls (handleSubmit sample_platform echo_state) = [(''test'', ''gpt-4o'')]
   \<and> puterRef echo_state = Some (Puter (Some (AiCap (Some echo_chat))))
   \<and> callPuterChat sample_platform (puterRef echo_state) ''test'' ''gpt-4o''
       = bind_exn (echo_chat ''test'' (JObj [(''model'', JStr ''gpt-4o'')]))
           (extractTextFromResponse sample_platform)"
proof -
  have c: "adapterCalls (handleSubmit sample_platform echo_state) = [(''test'', ''gpt-4o'')]"
    by (simp add: handleSubmit_def Let_def echo_state_simps trim_test response_text_def
        gateway_usable_def echo_puter_def split: sum.splits)
  then have "adapterCalls (handleSubmit sample_platform echo_state) \<noteq> adapterCalls echo_state"
    by (simp add: echo_state_simps)
  from C10_adapter_called_with_ai_present[OF this] c show ?thesis
    by (auto simp: echo_state_simps echo_puter_def)
qed

text \<open>
  Claim C3 says that in every reachable state every message has a non-empty content. As
  stated it fails for an assistant message made from a reply of the gateway: nothing
  between the reply and \<^verbatim>\<open>setMessages\<close> looks at the normalized text, and the
  normalizer gives the empty string for the empty array (and for the empty string). After
  the script has loaded a gateway that replies \<^verbatim>\<open>[]\<close>, submitting \<^verbatim>\<open>hi\<close> leaves an
  assistant message with empty content.
\<close>

theorem C3_empty_reply_gives_empty_message:
  "messages (run sample_platform
       [ScriptLoad (Some (sample_puter (Inr (JArr [])))), SetPrompt ''hi'', Submit])
   = [welcome_message, \<lparr>role = User, content = JStr ''hi''\<rparr>,
      \<lparr>role = Assistant, content = JStr []\<rparr>]"
  by (simp add: run_def initial_state_def onload_def handleSubmit_def Let_def trim_hi
      response_text_def gateway_usable_def callPuterChat_def sample_puter_def
      extractTextFromResponse_def extract_from_object_def text_items_def array_join_def)

text \<open>
  Claim C3 as amended: in every reachable state every user message and every system
  message has a content that is a non-empty string; and the two messages that a submission
  appends when it falls back to the mock responder (the gateway is not usable, or
  \<^verbatim>\<open>callPuterChat\<close> throws) both have a content that is a non-empty string.
\<close>

theorem C3_user_system_and_mock_texts_nonempty:
  "(\<forall>m \<in> set (messages (run pf evs)). role m \<noteq> Assistant \<longrightarrow> nonempty_text (content m))
   \<and> (trim pf (prompt st) \<noteq> [] \<and> \<not> isLoading st \<and>
      (\<not> gateway_usable st \<or>
       (\<exists>e. callPuterChat pf (puterRef st) (prompt st) (selectedModel st) = Inl e)) \<longrightarrow>
      (\<forall>m \<in> set (drop (length (messages st)) (messages (handleSubmit pf st))).
         nonempty_text (content m)))"
proof
  show "\<forall>m \<in> set (messages (run pf evs)). role m \<noteq> Assistant \<longrightarrow> nonempty_text (content m)"
    using run_keeps_user_texts[of pf evs] by (simp add: user_texts_nonempty_def)
next
  show "trim pf (prompt st) \<noteq> [] \<and> \<not> isLoading st \<and>
      (\<not> gateway_usable st \<or>
       (\<exists>e. callPuterChat pf (puterRef st) (prompt st) (selectedModel st) = Inl e)) \<longrightarrow>
      (\<forall>m \<in> set (drop (length (messages st)) (messages (handleSubmit pf st))).
         nonempty_text (content m))"
  proof
    assume a: "trim pf (prompt st) \<noteq> [] \<and> \<not> isLoading st \<and>
      (\<not> gateway_usable st \<or>
       (\<exists>e. callPuterChat pf (puterRef st) (prompt st) (selectedModel st) = Inl e))"
    then have m: "messages (handleSubmit pf st) =
           messages st @ [\<lparr>role = User, content = JStr (prompt st)\<rparr>,
                          \<lparr>role = Assistant, content = JStr (getMockResponse pf (prompt st))\<rparr>]"
      using handleSubmit_fallback[where st = st and pf = pf]
        response_text_fallback[where st = st and pf = pf and p = "prompt st"] by blast
    have p: "prompt st \<noteq> []" using a trim_nonempty by blast
    show "\<forall>m \<in> set (drop (length (messages st)) (messages (handleSubmit pf st))).
         nonempty_text (content m)"
      by (simp add: m nonempty_text_def p mock_nonempty)
  qed
qed

theorem C3_user_system_and_mock_texts_nonempty_witness:
  "nonempty_text (content (hd (messages (run sample_platform
       [ScriptLoad (Some (sample_puter (Inr (JArr [])))), SetPrompt ''hi'', Submit]))))
   \<and> nonempty_text (content (last (messages (handleSubmit sample_platform failed_state))))"
proof
  have ms: "messages (run sample_platform
       [ScriptLoad (Some (sample_puter (Inr (JArr [])))), SetPrompt ''hi'', Submit])
     = [welcome_message, \<lparr>role = User, content = JStr ''hi''\<rparr>,
        \<lparr>role = Assistant, content = JStr []\<rparr>]"
    by (simp add: run_def initial_state_def onload_def handleSubmit_def Let_def trim_hi
      response_text_def gateway_usable_def callPuterChat_def sample_puter_def
      extractTextFromResponse_def extract_from_object_def text_items_def array_join_def)
  show "nonempty_text (content (hd (messages (run sample_platform
       [ScriptLoad (Some (sample_puter (Inr (JArr [])))), SetPrompt ''hi'', Submit]))))"
    using C3_user_system_and_mock_texts_nonempty[of sample_platform
        "[ScriptLoad (Some (sample_puter (Inr (JArr [])))), SetPrompt ''hi'', Submit]"
        failed_state]
    by (simp add: ms welcome_message_def)
  have fm: "messages (handleSubmit sample_platform failed_state) =
     [\<lparr>role = User, content = JStr ''test''\<rparr>, \<lparr>role = Assistant, content = JStr mock_generic\<rparr>]"
    by (simp add: handleSubmit_def Let_def failed_state_simps trim_test mock_test
        response_text_def gateway_usable_def)
  show "nonempty_text (content (last (messages (handleSubmit sample_platform failed_state))))"
    using C3_user_system_and_mock_texts_nonempty[of sample_platform "[]" failed_state]
    by (simp add: fm failed_state_simps trim_test gateway_usable_def)
qed

section \<open>Loading the gateway script: the status after a late load\<close>

text \<open>
  Claim C4 says that the script status leaves \<^verbatim>\<open>loading\<close> exactly once and never
  goes from failed back to ready. The handlers \<^verbatim>\<open>onload\<close> and \<^verbatim>\<open>onerror\<close> clear the
  timer, so the timer cannot fire after them; but the timer's callback leaves the script
  element and its handlers in place. When the timer fires first and the script loads
  after it, the status goes from \<^verbatim>\<open>loading\<close> to \<^verbatim>\<open>error\<close> and then to
  \<^verbatim>\<open>loaded\<close>.
\<close>

theorem C4_late_load_after_timeout:
  "map (\<lambda>evs. scriptStatus (run sample_platform evs))
     [[], [TimerFires], [TimerFires, ScriptLoad (Some (sample_puter (Inr (JStr ''hello''))))]]
   = [Loading, Failed, Loaded]"
  by (simp add: run_def initial_state_def on_timeout_def onload_def)

end
